theory Spec2Isabelle
  imports Complex_Main "HOL-Library.AList" "HOL-Library.Log_Nat"
begin

section \<open>Numbers and errors\<close>

text \<open>
  The program computes with Python floats. They are modelled as mathematical reals, so
  rounding is not part of the model; the one non-finite value the program makes itself,
  \<^verbatim>\<open>float('inf')\<close>, is the explicit value \<open>PInf\<close>, and only the field that can hold
  it (\<open>xi_val\<close>) has the extended type. Python's \<^verbatim>\<open>/\<close> raises on a zero divisor,
  so division by a variable is the fallible \<open>truediv\<close>; division by a non-zero literal
  (as in \<^verbatim>\<open>/ 2\<close>) cannot raise and is written \<open>/\<close>.

  Where a property depends on how the results are rounded (the exact contraction factor of
  the two relaxation updates), the statements concerned are modelled a second time with
  binary64 rounding after every operation, in the section on binary64 arithmetic.
\<close>

datatype pyfloat = Fin real | PInf

datatype py_error = ZeroDivisionError | OSError string

definition truediv :: "real \<Rightarrow> real \<Rightarrow> py_error + real" where
  "truediv a b = (if b = 0 then Inl ZeroDivisionError else Inr (a / b))"

text \<open>The comparison \<^verbatim>\<open>v > r\<close> of a stored metric with a finite float.\<close>

fun pyfloat_gt :: "pyfloat \<Rightarrow> real \<Rightarrow> bool" where
  "pyfloat_gt PInf r = True"
| "pyfloat_gt (Fin v) r = (v > r)"

section \<open>Constants\<close>

definition LAMBDA_PHI :: real where
  "LAMBDA_PHI = 2.176435 / 10 ^ 8"

definition PHI_THRESHOLD :: real where
  "PHI_THRESHOLD = 7.6901"

definition THETA_LOCK :: real where
  "THETA_LOCK = 51.843"

definition COHERENCE_MIN :: real where
  "COHERENCE_MIN = 0.97"

section \<open>Data structures\<close>

text \<open>
  The dataclass \<^verbatim>\<open>CRSM6D\<close>; its fields \<^verbatim>\<open>x, y, z, t, phi, sigma\<close> carry the
  prefix \<open>crsm_\<close> here, since a record field is a constant of the theory.
\<close>

record CRSM6D =
  crsm_x :: real
  crsm_y :: real
  crsm_z :: real
  crsm_t :: real
  crsm_phi :: real
  crsm_sigma :: real

definition CRSM6D_default :: CRSM6D where
  "CRSM6D_default =
     \<lparr>crsm_x = 0, crsm_y = 0, crsm_z = 0, crsm_t = 0, crsm_phi = 0, crsm_sigma = 0\<rparr>"

record CCCEState =
  lambda_val :: real
  phi_val :: real
  gamma_val :: real
  xi_val :: pyfloat
  theta_val :: real

definition CCCEState_default :: CCCEState where
  "CCCEState_default =
     \<lparr>lambda_val = 0.97, phi_val = 7.6901, gamma_val = 0.001, xi_val = Fin 0,
      theta_val = 51.843\<rparr>"

text \<open>
  \<^verbatim>\<open>CCCEState.compute_xi\<close> stores the metric in \<open>xi_val\<close> and returns it: the model
  returns the value together with the updated receiver.
\<close>

definition CCCEState_compute_xi :: "CCCEState \<Rightarrow> py_error + (pyfloat \<times> CCCEState)" where
  "CCCEState_compute_xi s =
     (if gamma_val s < 1 / 10 ^ 10 then Inr (PInf, s\<lparr>xi_val := PInf\<rparr>)
      else (case truediv (lambda_val s * phi_val s) (gamma_val s) of
              Inl e \<Rightarrow> Inl e
            | Inr q \<Rightarrow> Inr (Fin q, s\<lparr>xi_val := Fin q\<rparr>)))"

definition is_stable :: "CCCEState \<Rightarrow> bool" where
  "is_stable s \<longleftrightarrow> pyfloat_gt (xi_val s) 0.1 \<and> \<bar>theta_val s - THETA_LOCK\<bar> < 0.01"

record OrganismState =
  organism_id :: string
  genesis_hash :: string
  generation :: int
  crsm :: CRSM6D
  ccce :: CCCEState
  coherence :: real
  entropy :: real
  consciousness_phi :: real
  qbytes :: real
  status :: string

text \<open>
  The constructor call \<^verbatim>\<open>OrganismState(organism_id=.., genesis_hash=.., generation=0)\<close>:
  every other field takes its dataclass default.
\<close>

definition OrganismState_new :: "string \<Rightarrow> string \<Rightarrow> OrganismState" where
  "OrganismState_new oid gh =
     \<lparr>organism_id = oid, genesis_hash = gh, generation = 0, crsm = CRSM6D_default,
      ccce = CCCEState_default, coherence = 0.97, entropy = 0.03,
      consciousness_phi = 7.6901, qbytes = 0, status = ''INITIALIZING''\<rparr>"

section \<open>Logger\<close>

text \<open>
  The logger appends a line to the file of a channel and prints it. The model keeps what
  was sent, in order: the channel and the notice. A notice stands for the formatted
  message of the source (time stamps and colour codes are left out):
  \<open>FileNotFound p\<close> for \<^verbatim>\<open>Organism file not found: {filepath}\<close>,
  \<open>NotSymmetric\<close> for the symmetrization notice,
  \<open>Loaded oid h\<close> for \<^verbatim>\<open>Loaded organism: {organism_id} [{genesis_hash[:8]}...]\<close>,
  \<open>LoadFailed e\<close> for \<^verbatim>\<open>Failed to load organism: {e}\<close>.
\<close>

datatype channel = AURA | AIDEN | PLATFORM

datatype notice =
    FileNotFound string
  | NotSymmetric
  | Loaded string string
  | LoadFailed py_error

section \<open>Organism loader\<close>

text \<open>
  The dictionary \<^verbatim>\<open>ecosystem\<close> is an association list in insertion order; an
  assignment \<^verbatim>\<open>ecosystem[k] = v\<close> is \<open>AList.update\<close> (an existing key keeps its
  place, a new one goes last). The field \<open>logger\<close> holds what the loader's logger received.
\<close>

record OrganismLoader =
  ecosystem :: "(string \<times> OrganismState) list"
  logger :: "(channel \<times> notice) list"

definition log_to :: "channel \<Rightarrow> notice \<Rightarrow> OrganismLoader \<Rightarrow> OrganismLoader" where
  "log_to c n ld = ld\<lparr>logger := logger ld @ [(c, n)]\<rparr>"

text \<open>
  The file system the loader reads: a path is absent, a readable text file, or an entry
  whose \<^verbatim>\<open>read_text\<close> raises (a directory, undecodable bytes) with the given message.
\<close>

datatype fs_node = File string | Unreadable string

type_synonym filesystem = "string \<Rightarrow> fs_node option"

text \<open>
  \<^verbatim>\<open>hashlib.sha256(..).hexdigest()\<close> and \<^verbatim>\<open>Path.stem\<close> are library functions; they
  are parameters (\<open>sha256_hex\<close>, \<open>stem\<close>) of the functions that call them.
\<close>

definition generate_genesis_hash :: "(string \<Rightarrow> string) \<Rightarrow> string \<Rightarrow> string" where
  "generate_genesis_hash sha256_hex content = take 16 (sha256_hex content)"

definition check_lambda_symmetry :: "OrganismState \<Rightarrow> bool" where
  "check_lambda_symmetry organism \<longleftrightarrow> coherence organism \<ge> COHERENCE_MIN"

definition symmetrize :: "OrganismState \<Rightarrow> py_error + OrganismState" where
  "symmetrize organism =
     (let c = (coherence organism + COHERENCE_MIN) / 2;
          s = (ccce organism)\<lparr>lambda_val := c\<rparr>
      in case CCCEState_compute_xi s of
           Inl e \<Rightarrow> Inl e
         | Inr (v, s') \<Rightarrow> Inr (organism\<lparr>coherence := c, ccce := s'\<rparr>))"

text \<open>
  \<^verbatim>\<open>load_organism\<close> returns the organism or \<^verbatim>\<open>None\<close>, and the loader after the
  call. Whatever is raised inside the \<^verbatim>\<open>try\<close> block is caught, logged and turned into
  \<^verbatim>\<open>None\<close>.
\<close>

definition load_organism ::
  "(string \<Rightarrow> string) \<Rightarrow> (string \<Rightarrow> string) \<Rightarrow> filesystem \<Rightarrow> OrganismLoader \<Rightarrow> string
     \<Rightarrow> OrganismState option \<times> OrganismLoader" where
  "load_organism sha256_hex stem fs ld filepath =
     (case fs filepath of
        None \<Rightarrow> (None, log_to AIDEN (FileNotFound filepath) ld)
      | Some (Unreadable msg) \<Rightarrow> (None, log_to AIDEN (LoadFailed (OSError msg)) ld)
      | Some (File content) \<Rightarrow>
          (let gh = generate_genesis_hash sha256_hex content;
               organism = OrganismState_new (stem filepath) gh
           in if \<not> check_lambda_symmetry organism then
                (let ld1 = log_to AURA NotSymmetric ld
                 in case symmetrize organism of
                      Inl e \<Rightarrow> (None, log_to AIDEN (LoadFailed e) ld1)
                    | Inr organism' \<Rightarrow>
                        (Some organism',
                         log_to PLATFORM (Loaded (organism_id organism') (take 8 gh))
                           (ld1\<lparr>ecosystem := AList.update gh organism' (ecosystem ld1)\<rparr>)))
              else
                (Some organism,
                 log_to PLATFORM (Loaded (organism_id organism) (take 8 gh))
                   (ld\<lparr>ecosystem := AList.update gh organism (ecosystem ld)\<rparr>))))"

definition compute_ecosystem_lambda :: "OrganismLoader \<Rightarrow> py_error + real" where
  "compute_ecosystem_lambda ld =
     (if ecosystem ld = [] then Inr 0
      else truediv (sum_list (map (\<lambda>kv. coherence (snd kv)) (ecosystem ld)))
             (real (length (ecosystem ld))))"

text \<open>
  The loop of \<^verbatim>\<open>enforce_ecosystem_symmetry\<close> over the values of the dictionary, with
  the mean \<open>lambda_total\<close> computed once before it.
\<close>

fun symmetry_loop ::
  "real \<Rightarrow> (string \<times> OrganismState) list \<Rightarrow> py_error + (string \<times> OrganismState) list" where
  "symmetry_loop lambda_total [] = Inr []"
| "symmetry_loop lambda_total ((k, organism) # rest) =
     (let delta = coherence organism - lambda_total;
          c = coherence organism - 0.1 * delta;
          s = (ccce organism)\<lparr>lambda_val := c\<rparr>
      in case CCCEState_compute_xi s of
           Inl e \<Rightarrow> Inl e
         | Inr (v, s') \<Rightarrow>
             (case symmetry_loop lambda_total rest of
                Inl e \<Rightarrow> Inl e
              | Inr rest' \<Rightarrow> Inr ((k, organism\<lparr>coherence := c, ccce := s'\<rparr>) # rest')))"


section \<open>CCCE engine\<close>

text \<open>
  The engine's mutable fields: its own \<^verbatim>\<open>CCCEState\<close> and the correction counter.
  (Its table \<^verbatim>\<open>regimes\<close> is never read and its logger never written to.)
\<close>

record CCCEEngine =
  state :: CCCEState
  corrections :: int

definition CCCEEngine_new :: CCCEEngine where
  "CCCEEngine_new = \<lparr>state = CCCEState_default, corrections = 0\<rparr>"

text \<open>
  \<^verbatim>\<open>CCCEEngine.compute_xi(lambda_val, phi_val, gamma_val)\<close> assigns nothing; like the
  other methods it is modelled with the receiver after the call, which makes that a
  statement about the function.
\<close>

definition CCCEEngine_compute_xi ::
  "CCCEEngine \<Rightarrow> real \<Rightarrow> real \<Rightarrow> real \<Rightarrow> py_error + (pyfloat \<times> CCCEEngine)" where
  "CCCEEngine_compute_xi eng lam phi gam =
     (if gam < 1 / 10 ^ 10 then Inr (PInf, eng)
      else (case truediv (lam * phi) gam of
              Inl e \<Rightarrow> Inl e
            | Inr q \<Rightarrow> Inr (Fin q, eng)))"

definition phase_conjugate_correction ::
  "CCCEEngine \<Rightarrow> real \<Rightarrow> py_error + (real \<times> CCCEEngine)" where
  "phase_conjugate_correction eng error =
     (if \<bar>error\<bar> < 1 / 10 ^ 10 then Inr (0, eng)
      else (case (if error \<noteq> 0
                  then (case truediv 1 error of
                          Inl e \<Rightarrow> Inl e
                        | Inr q \<Rightarrow> Inr (error - q))
                  else Inr 0) of
              Inl e \<Rightarrow> Inl e
            | Inr corrected \<Rightarrow>
                Inr (corrected, eng\<lparr>corrections := corrections eng + 1\<rparr>)))"

definition check_convergence :: "CCCEEngine \<Rightarrow> py_error + (bool \<times> CCCEEngine)" where
  "check_convergence eng =
     (case CCCEState_compute_xi (state eng) of
        Inl e \<Rightarrow> Inl e
      | Inr (v, s') \<Rightarrow>
          (let theta_error = \<bar>theta_val s' - THETA_LOCK\<bar>
           in Inr (pyfloat_gt (xi_val s') 0.1 \<and> theta_error < 0.01, eng\<lparr>state := s'\<rparr>)))"

text \<open>
  \<^verbatim>\<open>evolve_step\<close> mutates the organism in place and, through
  \<^verbatim>\<open>phase_conjugate_correction\<close>, the engine: the model returns both. The statements
  of the source are the nested \<open>let\<close>s, in the source's order.
\<close>

definition evolve_step ::
  "CCCEEngine \<Rightarrow> OrganismState \<Rightarrow> real \<Rightarrow> py_error + (OrganismState \<times> CCCEEngine)" where
  "evolve_step eng organism dt =
     (let phi_new = LAMBDA_PHI * consciousness_phi organism - entropy organism * 0.01;
          o1 = organism\<lparr>consciousness_phi := max 0 phi_new\<rparr>;
          t' = crsm_t (crsm o1) + dt;
          o2 = o1\<lparr>crsm := (crsm o1)
                 \<lparr>crsm_t := t',
                  crsm_phi := sin (t' * LAMBDA_PHI * 10 ^ 6) * PHI_THRESHOLD,
                  crsm_sigma := crsm_sigma (crsm o1) + entropy o1 * 0.001\<rparr>\<rparr>;
          theta_error = theta_val (ccce o2) - THETA_LOCK;
          o3 = o2\<lparr>ccce := (ccce o2)\<lparr>theta_val := theta_val (ccce o2) - theta_error * 0.1\<rparr>\<rparr>;
          o4 = o3\<lparr>generation := generation o3 + 1\<rparr>
      in case (if entropy o4 > 0.1
               then (case phase_conjugate_correction eng (entropy o4) of
                       Inl e \<Rightarrow> Inl e
                     | Inr (corrected, eng') \<Rightarrow> Inr (o4\<lparr>entropy := \<bar>corrected\<bar>\<rparr>, eng'))
               else Inr (o4, eng)) of
           Inl e \<Rightarrow> Inl e
         | Inr (o5, eng') \<Rightarrow>
             (let s = (ccce o5)\<lparr>lambda_val := coherence o5,
                                phi_val := consciousness_phi o5,
                                gamma_val := entropy o5\<rparr>
              in case CCCEState_compute_xi s of
                   Inl e \<Rightarrow> Inl e
                 | Inr (v, s') \<Rightarrow>
                     (let o6 = o5\<lparr>ccce := s'\<rparr>;
                          o7 = (if coherence o6 > 0.9
                                then o6\<lparr>qbytes := qbytes o6 + coherence o6 * LAMBDA_PHI * 10 ^ 7\<rparr>
                                else o6)
                      in Inr (o7, eng'))))"

section \<open>Binary64 arithmetic\<close>

text \<open>
  A Python float is an IEEE 754 binary64 number, and every arithmetic operation returns
  the exact result rounded to the nearest such number, ties to the even significand.
  \<open>binary64_round\<close> is that rounding on the reals: \<open>binary64_exponent x\<close> is the exponent
  of the last place of \<open>x\<close> (53 significant bits, and never below \<open>-1074\<close>, the last place
  of the subnormal numbers), and \<open>x\<close> is rounded to a multiple of that power of two.
  Results of magnitude \<open>2 ^ 1024\<close> and above, which Python turns into \<^verbatim>\<open>inf\<close>, are
  outside the model: the statements below keep their inputs under \<open>2 ^ 1000\<close>.
\<close>

definition round_half_even :: "real \<Rightarrow> int" where
  "round_half_even x =
     (let f = \<lfloor>x\<rfloor>; r = x - of_int f
      in if r < 1 / 2 then f else if 1 / 2 < r then f + 1 else if even f then f else f + 1)"

definition pow2 :: "int \<Rightarrow> real" where
  "pow2 e = (if 0 \<le> e then 2 ^ nat e else 1 / 2 ^ nat (- e))"

definition binary64_exponent :: "real \<Rightarrow> int" where
  "binary64_exponent x = max (bitlen \<lfloor>\<bar>x\<bar> * 2 ^ 1074\<rfloor> - 1127) (- 1074)"

definition binary64_round :: "real \<Rightarrow> real" where
  "binary64_round x =
     (let e = binary64_exponent x
      in of_int (round_half_even (x / pow2 e)) * pow2 e)"

text \<open>
  The two statements of the loop body of \<^verbatim>\<open>enforce_ecosystem_symmetry\<close>,
  \<^verbatim>\<open>delta = organism.coherence - lambda_total\<close> and
  \<^verbatim>\<open>organism.coherence -= 0.1 * delta\<close>, in binary64: the literal \<^verbatim>\<open>0.1\<close> is the
  float nearest to one tenth, and each of the three operations rounds.
\<close>

definition symmetry_pull_binary64 :: "real \<Rightarrow> real \<Rightarrow> real" where
  "symmetry_pull_binary64 lambda_total c =
     (let delta = binary64_round (c - lambda_total)
      in binary64_round (c - binary64_round (binary64_round 0.1 * delta)))"

text \<open>
  The two statements of the angle relaxation in \<^verbatim>\<open>evolve_step\<close>,
  \<^verbatim>\<open>theta_error = organism.ccce.theta_val - THETA_LOCK\<close> and
  \<^verbatim>\<open>organism.ccce.theta_val -= theta_error * 0.1\<close>, in binary64; the constant
  \<^verbatim>\<open>THETA_LOCK\<close> is the float nearest to 51.843.
\<close>

definition evolve_step_theta_binary64 :: "real \<Rightarrow> real" where
  "evolve_step_theta_binary64 theta =
     (let theta_error = binary64_round (theta - binary64_round THETA_LOCK)
      in binary64_round (theta - binary64_round (theta_error * binary64_round 0.1)))"

section \<open>Drivers and sample inputs\<close>

text \<open>\<open>n\<close> successive calls of \<^verbatim>\<open>evolve_step\<close> on one organism, with the same engine.\<close>

fun evolve_repeatedly ::
  "nat \<Rightarrow> CCCEEngine \<Rightarrow> OrganismState \<Rightarrow> real \<Rightarrow> py_error + (OrganismState \<times> CCCEEngine)" where
  "evolve_repeatedly 0 eng organism dt = Inr (organism, eng)"
| "evolve_repeatedly (Suc n) eng organism dt =
     (case evolve_step eng organism dt of
        Inl e \<Rightarrow> Inl e
      | Inr (organism', eng') \<Rightarrow> evolve_repeatedly n eng' organism' dt)"

text \<open>A registry of two organisms with coherences 0.5 and 1.0, all else as at admission.\<close>

definition two_organisms :: OrganismLoader where
  "two_organisms =
     \<lparr>ecosystem = [(''a'', (OrganismState_new ''a'' ''a'')\<lparr>coherence := 0.5\<rparr>),
                   (''b'', (OrganismState_new ''b'' ''b'')\<lparr>coherence := 1\<rparr>)],
      logger = []\<rparr>"

section \<open>The numeric operations never raise\<close>

lemma CCCEState_compute_xi_Inr:
  "CCCEState_compute_xi s =
     Inr (if gamma_val s < 1 / 10 ^ 10 then PInf else Fin (lambda_val s * phi_val s / gamma_val s),
          s\<lparr>xi_val := (if gamma_val s < 1 / 10 ^ 10 then PInf
                        else Fin (lambda_val s * phi_val s / gamma_val s))\<rparr>)"
  by (auto simp: CCCEState_compute_xi_def truediv_def)

lemma phase_conjugate_correction_above:
  "0.1 < error \<Longrightarrow>
   phase_conjugate_correction eng error =
     Inr (error - 1 / error, eng\<lparr>corrections := corrections eng + 1\<rparr>)"
  by (auto simp: phase_conjugate_correction_def truediv_def)

lemma evolve_step_Inr: "\<exists>organism' eng'. evolve_step eng organism dt = Inr (organism', eng')"
  by (simp add: evolve_step_def Let_def CCCEState_compute_xi_Inr phase_conjugate_correction_above)

lemma evolve_step_generation:
  "evolve_step eng organism dt = Inr (organism', eng') \<Longrightarrow>
   generation organism' = generation organism + 1"
  by (auto simp: evolve_step_def Let_def CCCEState_compute_xi_Inr phase_conjugate_correction_above
      split: if_splits)

lemma evolve_step_coherence:
  "evolve_step eng organism dt = Inr (organism', eng') \<Longrightarrow>
   coherence organism' = coherence organism"
  by (auto simp: evolve_step_def Let_def CCCEState_compute_xi_Inr phase_conjugate_correction_above
      split: if_splits)

lemma evolve_step_entropy:
  "evolve_step eng organism dt = Inr (organism', eng') \<Longrightarrow>
   entropy organism' =
     (if entropy organism > 0.1 then \<bar>entropy organism - 1 / entropy organism\<bar>
      else entropy organism)"
  by (auto simp: evolve_step_def Let_def CCCEState_compute_xi_Inr phase_conjugate_correction_above
      split: if_splits)

lemma evolve_step_corrections:
  "evolve_step eng organism dt = Inr (organism', eng') \<Longrightarrow>
   corrections eng' =
     (if entropy organism > 0.1 then corrections eng + 1 else corrections eng)"
  by (auto simp: evolve_step_def Let_def CCCEState_compute_xi_Inr phase_conjugate_correction_above
      split: if_splits)

lemma evolve_step_qbytes:
  "evolve_step eng organism dt = Inr (organism', eng') \<Longrightarrow>
   qbytes organism' =
     (if coherence organism > 0.9
      then qbytes organism + coherence organism * LAMBDA_PHI * 10 ^ 7
      else qbytes organism)"
  by (auto simp: evolve_step_def Let_def CCCEState_compute_xi_Inr phase_conjugate_correction_above
      split: if_splits)

lemma evolve_step_theta:
  "evolve_step eng organism dt = Inr (organism', eng') \<Longrightarrow>
   theta_val (ccce organism') =
     theta_val (ccce organism) - 0.1 * (theta_val (ccce organism) - THETA_LOCK)"
  by (auto simp: evolve_step_def Let_def CCCEState_compute_xi_Inr phase_conjugate_correction_above
      split: if_splits)

text \<open>
  After a step the stored metric is the metric of the organism's current values:
  the three inputs are mirrored, and recomputing changes nothing.
\<close>

lemma evolve_step_xi_fresh:
  "evolve_step eng organism dt = Inr (organism', eng') \<Longrightarrow>
   lambda_val (ccce organism') = coherence organism'
   \<and> phi_val (ccce organism') = consciousness_phi organism'
   \<and> gamma_val (ccce organism') = entropy organism'
   \<and> CCCEState_compute_xi (ccce organism') = Inr (xi_val (ccce organism'), ccce organism')"
  by (auto simp: evolve_step_def Let_def CCCEState_compute_xi_Inr phase_conjugate_correction_above
      split: if_splits)

lemma LAMBDA_PHI_pos: "0 < LAMBDA_PHI"
  by (simp add: LAMBDA_PHI_def)

lemma evolve_step_qbytes_mono:
  assumes "evolve_step eng organism dt = Inr (organism', eng')"
  shows "qbytes organism \<le> qbytes organism'"
proof (cases "coherence organism > 0.9")
  case True
  then have "0 < coherence organism" by simp
  then have "0 \<le> coherence organism * LAMBDA_PHI * 10 ^ 7"
    using LAMBDA_PHI_pos by simp
  with True show ?thesis by (simp add: evolve_step_qbytes [OF assms])
next
  case False
  then show ?thesis by (simp add: evolve_step_qbytes [OF assms])
qed

lemma evolve_repeatedly_props:
  "\<exists>organism' eng'. evolve_repeatedly n eng organism dt = Inr (organism', eng')
     \<and> generation organism' = generation organism + int n
     \<and> coherence organism' = coherence organism
     \<and> qbytes organism \<le> qbytes organism'"
proof (induction n arbitrary: eng organism)
  case 0
  show ?case by simp
next
  case (Suc n)
  obtain o1 e1 where step: "evolve_step eng organism dt = Inr (o1, e1)"
    using evolve_step_Inr by blast
  from Suc [of e1 o1] obtain o2 e2 where
    run: "evolve_repeatedly n e1 o1 dt = Inr (o2, e2)" and
    g: "generation o2 = generation o1 + int n" and
    c: "coherence o2 = coherence o1" and
    q: "qbytes o1 \<le> qbytes o2"
    by blast
  have "generation o2 = generation organism + int (Suc n)"
    using g evolve_step_generation [OF step] by simp
  moreover have "coherence o2 = coherence organism"
    using c evolve_step_coherence [OF step] by simp
  moreover have "qbytes organism \<le> qbytes o2"
    using q evolve_step_qbytes_mono [OF step] by simp
  ultimately show ?case using step run by simp
qed

section \<open>The population normalizer\<close>

lemma symmetry_loop_Inr: "\<exists>es'. symmetry_loop lt es = Inr es'"
proof (induction es)
  case Nil
  show ?case by simp
next
  case (Cons kv es)
  obtain k organism where kv: "kv = (k, organism)" by (cases kv)
  from Cons obtain es' where "symmetry_loop lt es = Inr es'" by blast
  then show ?case by (simp add: kv Let_def CCCEState_compute_xi_Inr)
qed








text \<open>After the normalizer the stored metric of every organism is that of its current values.\<close>

lemma symmetry_loop_xi_fresh:
  "symmetry_loop lt es = Inr es' \<Longrightarrow> kv \<in> set es' \<Longrightarrow>
   lambda_val (ccce (snd kv)) = coherence (snd kv)
   \<and> CCCEState_compute_xi (ccce (snd kv)) = Inr (xi_val (ccce (snd kv)), ccce (snd kv))"
proof (induction es arbitrary: es')
  case Nil
  then show ?case by simp
next
  case (Cons a es)
  obtain k organism where a: "a = (k, organism)" by (cases a)
  obtain r where r: "symmetry_loop lt es = Inr r" using symmetry_loop_Inr by blast
  from Cons.prems(1) obtain organism' where
    es': "es' = (k, organism') # r" and
    l: "lambda_val (ccce organism') = coherence organism'" and
    x: "CCCEState_compute_xi (ccce organism') = Inr (xi_val (ccce organism'), ccce organism')"
    by (auto simp: a r Let_def CCCEState_compute_xi_Inr)
  from Cons.prems(2) es' have "kv = (k, organism') \<or> kv \<in> set r" by auto
  then show ?case
  proof
    assume "kv = (k, organism')"
    with l x show ?thesis by simp
  next
    assume "kv \<in> set r"
    with Cons.IH [OF r] show ?thesis by blast
  qed
qed

section \<open>Rounding in binary64\<close>

lemma round_half_even_error: "\<bar>of_int (round_half_even y) - y\<bar> \<le> 1 / 2"
proof -
  define r where "r = y - of_int \<lfloor>y\<rfloor>"
  have r: "0 \<le> r" "r < 1" and y: "y = of_int \<lfloor>y\<rfloor> + r"
    unfolding r_def by linarith+
  consider (low) "r < 1 / 2" | (high) "1 / 2 < r" | (tie) "r = 1 / 2" by linarith
  then show ?thesis
  proof cases
    case low
    then have "round_half_even y = \<lfloor>y\<rfloor>"
      by (simp add: round_half_even_def Let_def r_def)
    with low r y show ?thesis by simp
  next
    case high
    then have "round_half_even y = \<lfloor>y\<rfloor> + 1"
      by (simp add: round_half_even_def Let_def r_def)
    with high r y show ?thesis by simp
  next
    case tie
    then have "round_half_even y = \<lfloor>y\<rfloor> \<or> round_half_even y = \<lfloor>y\<rfloor> + 1"
      by (simp add: round_half_even_def Let_def r_def)
    with tie y show ?thesis by auto
  qed
qed

lemma pow2_powr: "pow2 e = 2 powr (real_of_int e)"
proof (cases "0 \<le> e")
  case True
  then show ?thesis by (simp add: pow2_def powr_realpow [symmetric])
next
  case False
  then have "real_of_int e = - real (nat (- e))" by simp
  then have "2 powr (real_of_int e) = 2 powr (- real (nat (- e)))" by (rule arg_cong)
  also have "\<dots> = 1 / 2 powr real (nat (- e))" by (rule powr_minus_divide)
  also have "\<dots> = 1 / 2 ^ nat (- e)" by (simp only: powr_realpow zero_less_numeral)
  finally show ?thesis using False by (simp add: pow2_def)
qed

lemma pow2_pos: "0 < pow2 e"
  by (simp add: pow2_powr)

lemma pow2_exponent_bound: "pow2 (binary64_exponent x) \<le> \<bar>x\<bar> / 2 ^ 52 + 1 / 2 ^ 1074"
proof -
  let ?n = "\<lfloor>\<bar>x\<bar> * 2 ^ 1074\<rfloor>"
  show ?thesis
  proof (cases "bitlen ?n - 1127 \<le> - 1074")
    case True
    then have "binary64_exponent x = - 1074" by (simp add: binary64_exponent_def)
    then have "pow2 (binary64_exponent x) = 1 / 2 ^ 1074" by (simp add: pow2_def)
    moreover have "0 \<le> \<bar>x\<bar> / 2 ^ 52" by simp
    ultimately show ?thesis by linarith
  next
    case False
    then have e: "binary64_exponent x = bitlen ?n - 1127" by (simp add: binary64_exponent_def)
    from False have "0 < bitlen ?n" by simp
    then have npos: "0 < ?n" using bitlen_eq_zero_iff [of ?n] by linarith
    from bitlen_bounds [OF npos] have "2 ^ nat (bitlen ?n - 1) \<le> ?n" by blast
    then have "real_of_int (2 ^ nat (bitlen ?n - 1)) \<le> real_of_int ?n" by linarith
    also have "\<dots> \<le> \<bar>x\<bar> * 2 ^ 1074" by linarith
    finally have b: "2 ^ nat (bitlen ?n - 1) \<le> \<bar>x\<bar> * 2 ^ 1074" by simp
    have "real_of_int (bitlen ?n - 1127) = real (nat (bitlen ?n - 1)) - real (1126::nat)"
      using \<open>0 < bitlen ?n\<close> by simp
    then have "pow2 (bitlen ?n - 1127) = 2 powr real (nat (bitlen ?n - 1)) / 2 powr real (1126::nat)"
      by (simp only: pow2_powr powr_diff)
    also have "\<dots> = 2 ^ nat (bitlen ?n - 1) / 2 ^ 1126"
      by (simp only: powr_realpow zero_less_numeral)
    also have "\<dots> \<le> (\<bar>x\<bar> * 2 ^ 1074) / 2 ^ 1126"
      using b by (intro divide_right_mono) simp_all
    also have "\<dots> = \<bar>x\<bar> / 2 ^ 52" by simp
    finally have "pow2 (binary64_exponent x) \<le> \<bar>x\<bar> / 2 ^ 52" by (simp only: e)
    then show ?thesis by simp
  qed
qed

lemma binary64_round_error: "\<bar>binary64_round x - x\<bar> \<le> \<bar>x\<bar> / 2 ^ 53 + 1 / 2 ^ 1075"
proof -
  let ?p = "pow2 (binary64_exponent x)"
  have p: "0 < ?p" by (rule pow2_pos)
  have "binary64_round x - x = (of_int (round_half_even (x / ?p)) - x / ?p) * ?p"
    using p by (simp add: binary64_round_def Let_def field_simps)
  then have "\<bar>binary64_round x - x\<bar> = \<bar>of_int (round_half_even (x / ?p)) - x / ?p\<bar> * ?p"
    using p by (simp add: abs_mult)
  also have "\<dots> \<le> (1 / 2) * ?p"
    using p round_half_even_error [of "x / ?p"] by (intro mult_right_mono) simp_all
  also have "\<dots> \<le> (1 / 2) * (\<bar>x\<bar> / 2 ^ 52 + 1 / 2 ^ 1074)"
    using pow2_exponent_bound [of x] by (intro mult_left_mono) simp_all
  also have "\<dots> = \<bar>x\<bar> / 2 ^ 53 + 1 / 2 ^ 1075" by simp
  finally show ?thesis .
qed

lemma binary64_exponent_eqI:
  assumes "- 1074 \<le> e"
    and "2 ^ nat (e + 1126) \<le> \<bar>x\<bar> * 2 ^ 1074"
    and "\<bar>x\<bar> * 2 ^ 1074 < 2 ^ nat (e + 1127)"
  shows "binary64_exponent x = e"
proof -
  let ?n = "\<lfloor>\<bar>x\<bar> * 2 ^ 1074\<rfloor>"
  have lo: "(2::int) ^ nat (e + 1126) \<le> ?n"
    using assms(2) by (simp only: le_floor_iff of_int_power of_int_numeral)
  have hi: "?n < 2 ^ nat (e + 1127)"
    using assms(3) by (simp only: floor_less_iff of_int_power of_int_numeral)
  from assms(1) have n1: "nat (e + 1127) - 1 = nat (e + 1126)" by simp
  from assms(1) have "0 \<le> e + 1127" by simp
  with hi have "bitlen ?n \<le> e + 1127"
    by (simp only: bitlen_le_iff_power)
  moreover have "e + 1127 \<le> 0 \<or> (2::int) ^ (nat (e + 1127) - 1) \<le> ?n"
    unfolding n1 using lo by (rule disjI2)
  then have "e + 1127 \<le> bitlen ?n"
    by (simp only: bitlen_ge_iff_power)
  ultimately have "bitlen ?n = e + 1127" by simp
  with assms(1) show ?thesis by (simp add: binary64_exponent_def)
qed

lemma binary64_round_eqI:
  assumes "- 1074 \<le> e"
    and "2 ^ nat (e + 1126) \<le> \<bar>x\<bar> * 2 ^ 1074"
    and "\<bar>x\<bar> * 2 ^ 1074 < 2 ^ nat (e + 1127)"
  shows "binary64_round x = of_int (round_half_even (x / pow2 e)) * pow2 e"
  by (simp add: binary64_round_def Let_def binary64_exponent_eqI [OF assms])

lemma binary64_round_tenth: "binary64_round 0.1 = 3602879701896397 / 2 ^ 55"
  by (subst binary64_round_eqI [where e = "- 56"])
    (simp_all add: pow2_def round_half_even_def Let_def)

text \<open>
  The bound below adds up the three rounding errors of an update
  \<open>c - 0.1 * (c - m)\<close>; \<open>e1\<close>, \<open>e2\<close>, \<open>e3\<close> are the errors of the three operations.
\<close>

lemma rounding_chain:
  fixes e1 e2 e3 aD ad ap ac acp G eta :: real
  assumes g1: "e1 \<le> aD / 2 ^ 53 + eta"
    and g2: "e2 \<le> 3602879701896397 / 2 ^ 55 * ad / 2 ^ 53 + eta"
    and g3: "e3 \<le> acp / 2 ^ 53 + eta"
    and t1: "ad \<le> aD + e1"
    and t2: "ap \<le> 3602879701896397 / 2 ^ 55 * ad + e2"
    and t3: "acp \<le> ac + ap"
    and t4: "G \<le> e3 + e2 + 3602879701896397 / 2 ^ 55 * e1
               + (3602879701896397 / 2 ^ 55 - 1 / 10) * aD"
    and nonneg: "0 \<le> aD" "0 \<le> ac" "0 \<le> eta"
  shows "G \<le> (ac + aD) / 2 ^ 53 + 3 * eta"
proof -
  have s1: "ad \<le> 2 * aD + eta"
    using t1 g1 nonneg by simp
  have s2: "e2 \<le> aD / (4 * 2 ^ 53) + 9 / 8 * eta"
    using g2 s1 nonneg by simp
  have s3: "ap \<le> aD / 2 + 2 * eta"
    using t2 s1 s2 nonneg by simp
  have s4: "e3 \<le> ac / 2 ^ 53 + aD / (2 * 2 ^ 53) + 9 / 8 * eta"
    using g3 t3 s3 nonneg by simp
  define uD uc x5 x6 where "uD = aD / 2 ^ 53" and "uc = ac / 2 ^ 53"
    and "x5 = 3602879701896397 / 2 ^ 55 * e1"
    and "x6 = (3602879701896397 / 2 ^ 55 - 1 / 10) * aD"
  have r2: "e2 \<le> uD / 4 + 9 / 8 * eta"
    using s2 by (simp add: uD_def)
  have r4: "e3 \<le> uc + uD / 2 + 9 / 8 * eta"
    using s4 by (simp add: uD_def uc_def)
  have r5: "x5 \<le> uD / 8 + eta / 8"
    using g1 nonneg by (simp add: x5_def uD_def)
  have r6: "x6 \<le> uD / 8"
    using nonneg by (simp add: x6_def uD_def)
  have r0: "G \<le> e3 + e2 + x5 + x6"
    using t4 by (simp only: x5_def x6_def)
  have "0 \<le> uD" using nonneg by (simp add: uD_def)
  with r0 r2 r4 r5 r6 nonneg have "G \<le> uc + uD + 3 * eta" by linarith
  then show ?thesis by (simp add: uD_def uc_def add_divide_distrib)
qed

lemma symmetry_pull_binary64_error:
  "\<bar>symmetry_pull_binary64 m c - (c - 0.1 * (c - m))\<bar>
     \<le> (\<bar>c\<bar> + \<bar>c - m\<bar>) / 2 ^ 53 + 3 / 2 ^ 1075"
proof -
  define eta :: real where "eta = 1 / 2 ^ 1075"
  define k :: real where "k = 3602879701896397 / 2 ^ 55"
  define D where "D = c - m"
  define d where "d = binary64_round D"
  define p where "p = binary64_round (k * d)"
  define c' where "c' = binary64_round (c - p)"
  define aD ad ap ac acp where "aD = \<bar>D\<bar>" and "ad = \<bar>d\<bar>" and "ap = \<bar>p\<bar>"
    and "ac = \<bar>c\<bar>" and "acp = \<bar>c - p\<bar>"
  define e1 e2 e3 G where "e1 = \<bar>d - D\<bar>" and "e2 = \<bar>p - k * d\<bar>"
    and "e3 = \<bar>c' - (c - p)\<bar>" and "G = \<bar>c' - (c - 0.1 * D)\<bar>"
  have eta: "0 \<le> eta" by (simp add: eta_def)
  have kpos: "0 \<le> k" by (simp add: k_def)
  have kd: "\<bar>k * d\<bar> = k * ad"
    unfolding ad_def using kpos by (simp only: abs_mult abs_of_nonneg)
  have g1: "e1 \<le> aD / 2 ^ 53 + eta"
    unfolding e1_def aD_def d_def eta_def by (rule binary64_round_error)
  have "e2 \<le> \<bar>k * d\<bar> / 2 ^ 53 + eta"
    unfolding e2_def p_def eta_def by (rule binary64_round_error)
  then have "e2 \<le> k * ad / 2 ^ 53 + eta"
    by (simp only: kd)
  then have g2: "e2 \<le> 3602879701896397 / 2 ^ 55 * ad / 2 ^ 53 + eta"
    by (simp only: k_def)
  have g3: "e3 \<le> acp / 2 ^ 53 + eta"
    unfolding e3_def acp_def c'_def eta_def by (rule binary64_round_error)
  have t1: "ad \<le> aD + e1"
    unfolding ad_def aD_def e1_def by linarith
  have "ap \<le> k * ad + e2"
    unfolding ap_def e2_def kd [symmetric] by linarith
  then have t2: "ap \<le> 3602879701896397 / 2 ^ 55 * ad + e2"
    by (simp only: k_def)
  have t3: "acp \<le> ac + ap"
    unfolding acp_def ac_def ap_def by linarith
  have split: "c' - (c - 0.1 * D) = (c' - (c - p)) - (p - k * d) - k * (d - D) - (k - 0.1) * D"
    by (simp add: algebra_simps)
  have ke: "\<bar>k * (d - D)\<bar> = k * e1"
    unfolding e1_def using kpos by (simp only: abs_mult abs_of_nonneg)
  have "0 \<le> k - 0.1" by (simp add: k_def)
  then have kD: "\<bar>(k - 0.1) * D\<bar> = (k - 0.1) * aD"
    unfolding aD_def by (simp only: abs_mult abs_of_nonneg)
  have "G \<le> e3 + e2 + k * e1 + (k - 0.1) * aD"
    unfolding G_def e3_def e2_def split ke [symmetric] kD [symmetric] by linarith
  then have t4: "G \<le> e3 + e2 + 3602879701896397 / 2 ^ 55 * e1
               + (3602879701896397 / 2 ^ 55 - 1 / 10) * aD"
    by (simp add: k_def)
  have nonneg: "0 \<le> aD" "0 \<le> ac"
    by (simp_all add: aD_def ac_def)
  have "G \<le> (ac + aD) / 2 ^ 53 + 3 * eta"
    by (rule rounding_chain [OF g1 g2 g3 t1 t2 t3 t4 nonneg eta])
  moreover have "symmetry_pull_binary64 m c = c'"
    by (simp add: symmetry_pull_binary64_def Let_def binary64_round_tenth c'_def p_def d_def
        D_def k_def)
  ultimately show ?thesis by (simp add: G_def ac_def aD_def D_def eta_def)
qed

text \<open>
  The gap to the target after an update against \<open>0.9\<close> times the gap before it: the
  difference is at most the rounding error of the update.
\<close>

lemma symmetry_pull_binary64_gap:
  "\<bar>\<bar>symmetry_pull_binary64 m c - m\<bar> - 0.9 * \<bar>c - m\<bar>\<bar>
     \<le> (\<bar>c\<bar> + \<bar>c - m\<bar>) / 2 ^ 53 + 3 / 2 ^ 1075"
proof -
  let ?c' = "symmetry_pull_binary64 m c"
  have "0.9 * \<bar>c - m\<bar> = \<bar>0.9 * (c - m)\<bar>" by (simp only: abs_mult)
  then have "\<bar>\<bar>?c' - m\<bar> - 0.9 * \<bar>c - m\<bar>\<bar> \<le> \<bar>(?c' - m) - 0.9 * (c - m)\<bar>"
    by (simp only: abs_triangle_ineq3)
  also have "(?c' - m) - 0.9 * (c - m) = ?c' - (c - 0.1 * (c - m))"
    by (simp add: field_simps)
  also have "\<bar>?c' - (c - 0.1 * (c - m))\<bar> \<le> (\<bar>c\<bar> + \<bar>c - m\<bar>) / 2 ^ 53 + 3 / 2 ^ 1075"
    by (rule symmetry_pull_binary64_error)
  finally show ?thesis .
qed

lemma evolve_step_theta_binary64_pull:
  "evolve_step_theta_binary64 theta = symmetry_pull_binary64 (binary64_round THETA_LOCK) theta"
  by (simp add: evolve_step_theta_binary64_def symmetry_pull_binary64_def Let_def mult.commute)

lemma binary64_round_THETA_LOCK: "binary64_round THETA_LOCK = 3648126804402635 / 2 ^ 46"
  unfolding THETA_LOCK_def
  by (subst binary64_round_eqI [where e = "- 47"])
    (simp_all add: pow2_def round_half_even_def Let_def)

lemma evolve_step_theta_binary64_next_above:
  "binary64_round (7296253608805271 / 2 ^ 47) = 7296253608805271 / 2 ^ 47"
  "evolve_step_theta_binary64 (7296253608805271 / 2 ^ 47) = 7296253608805271 / 2 ^ 47"
proof -
  show "binary64_round (7296253608805271 / 2 ^ 47) = 7296253608805271 / 2 ^ 47"
    by (subst binary64_round_eqI [where e = "- 47"])
      (simp_all add: pow2_def round_half_even_def Let_def)
  have e1: "binary64_round (7296253608805271 / 2 ^ 47 - 3648126804402635 / 2 ^ 46) = 1 / 2 ^ 47"
    by (subst binary64_round_eqI [where e = "- 99"])
      (simp_all add: pow2_def round_half_even_def Let_def)
  have e2: "binary64_round (1 / 2 ^ 47 * (3602879701896397 / 2 ^ 55)) = 3602879701896397 / 2 ^ 102"
    by (subst binary64_round_eqI [where e = "- 103"])
      (simp_all add: pow2_def round_half_even_def Let_def)
  have e3: "binary64_round (7296253608805271 / 2 ^ 47 - 3602879701896397 / 2 ^ 102)
              = 7296253608805271 / 2 ^ 47"
    by (subst binary64_round_eqI [where e = "- 47"])
      (simp_all add: pow2_def round_half_even_def Let_def)
  show "evolve_step_theta_binary64 (7296253608805271 / 2 ^ 47) = 7296253608805271 / 2 ^ 47"
    unfolding evolve_step_theta_binary64_def Let_def binary64_round_THETA_LOCK
      binary64_round_tenth e1 e2 e3
    by (rule refl)
qed


section \<open>Admission\<close>

lemma load_organism_File:
  assumes "fs filepath = Some (File content)"
  shows "load_organism sha256_hex stem fs ld filepath =
     (Some (OrganismState_new (stem filepath) (generate_genesis_hash sha256_hex content)),
      log_to PLATFORM (Loaded (stem filepath) (take 8 (generate_genesis_hash sha256_hex content)))
        (ld\<lparr>ecosystem :=
              AList.update (generate_genesis_hash sha256_hex content)
                (OrganismState_new (stem filepath) (generate_genesis_hash sha256_hex content))
                (ecosystem ld)\<rparr>))"
  using assms
  by (simp add: load_organism_def Let_def check_lambda_symmetry_def COHERENCE_MIN_def
      OrganismState_new_def)

section \<open>The claims\<close>

text \<open>
  Claim C1. A single \<open>evolve_step\<close> always returns; it leaves the organism's entropy
  unchanged when the entropy is at most 0.1, and when the entropy exceeds 0.1 it replaces
  it by \<open>\<bar>entropy - 1 / entropy\<bar>\<close> and increments the engine's correction counter by
  exactly one (the counter is untouched otherwise).
\<close>

theorem evolve_step_entropy_correction:
  "\<exists>organism' eng'. evolve_step eng organism dt = Inr (organism', eng')
     \<and> (entropy organism \<le> 0.1 \<longrightarrow>
          entropy organism' = entropy organism \<and> corrections eng' = corrections eng)
     \<and> (entropy organism > 0.1 \<longrightarrow>
          entropy organism' = \<bar>entropy organism - 1 / entropy organism\<bar>
          \<and> corrections eng' = corrections eng + 1)"
proof -
  obtain organism' eng' where step: "evolve_step eng organism dt = Inr (organism', eng')"
    using evolve_step_Inr by blast
  show ?thesis
    using step evolve_step_entropy [OF step] evolve_step_corrections [OF step] by simp
qed

theorem evolve_step_entropy_correction_witness:
  "(\<exists>organism' eng'.
      evolve_step CCCEEngine_new ((OrganismState_new ''a'' ''0'')\<lparr>entropy := 0.5\<rparr>) 0.1
        = Inr (organism', eng')
      \<and> entropy organism' = 1.5 \<and> corrections eng' = 1)
   \<and> (\<exists>organism' eng'.
      evolve_step CCCEEngine_new ((OrganismState_new ''a'' ''0'')\<lparr>entropy := 0.05\<rparr>) 0.1
        = Inr (organism', eng')
      \<and> entropy organism' = 0.05 \<and> corrections eng' = 0)"
  using evolve_step_entropy_correction
          [of CCCEEngine_new "(OrganismState_new ''a'' ''0'')\<lparr>entropy := 0.5\<rparr>" "0.1"]
        evolve_step_entropy_correction
          [of CCCEEngine_new "(OrganismState_new ''a'' ''0'')\<lparr>entropy := 0.05\<rparr>" "0.1"]
  by (auto simp: CCCEEngine_new_def)

text \<open>
  Claim C2. For all reals \<open>c\<close>, \<open>p\<close>, \<open>g\<close> the three-argument \<open>compute_xi\<close> of the
  engine returns plus infinity when \<open>g < 1e-10\<close> and \<open>(c * p) / g\<close> otherwise, never
  raises, and leaves the engine as it was. The method of the same name on a
  \<open>CCCEState\<close> returns the same value for the state's own three fields and stores it in
  \<open>xi_val\<close>, changing no other field.
\<close>

theorem compute_xi_value:
  "CCCEEngine_compute_xi eng c p g =
     Inr (if g < 1 / 10 ^ 10 then PInf else Fin (c * p / g), eng)
   \<and> CCCEState_compute_xi s =
     Inr (if gamma_val s < 1 / 10 ^ 10 then PInf
          else Fin (lambda_val s * phi_val s / gamma_val s),
          s\<lparr>xi_val := (if gamma_val s < 1 / 10 ^ 10 then PInf
                        else Fin (lambda_val s * phi_val s / gamma_val s))\<rparr>)"
  by (auto simp: CCCEEngine_compute_xi_def truediv_def CCCEState_compute_xi_Inr)

theorem compute_xi_value_witness:
  "CCCEEngine_compute_xi CCCEEngine_new 0.97 7.6901 0.001 = Inr (Fin 7459.397, CCCEEngine_new)
   \<and> CCCEEngine_compute_xi CCCEEngine_new 0.97 7.6901 0 = Inr (PInf, CCCEEngine_new)
   \<and> CCCEEngine_compute_xi CCCEEngine_new 0.97 7.6901 (- 2) = Inr (PInf, CCCEEngine_new)"
  using compute_xi_value [of CCCEEngine_new "0.97" "7.6901" "0.001"]
        compute_xi_value [of CCCEEngine_new "0.97" "7.6901" 0]
        compute_xi_value [of CCCEEngine_new "0.97" "7.6901" "- 2"]
  by simp




text \<open>
  Claim C4. One \<open>evolve_step\<close> adds exactly \<open>coherence * LAMBDA_PHI * 1e7\<close> to \<open>qbytes\<close>
  when the coherence exceeds 0.9 and leaves \<open>qbytes\<close> unchanged otherwise; hence \<open>qbytes\<close>
  does not decrease in a step, nor over any number of steps.
\<close>

theorem evolve_step_yield:
  "\<exists>organism' eng'. evolve_step eng organism dt = Inr (organism', eng')
     \<and> (coherence organism > 0.9 \<longrightarrow>
          qbytes organism' = qbytes organism + coherence organism * LAMBDA_PHI * 10 ^ 7)
     \<and> (coherence organism \<le> 0.9 \<longrightarrow> qbytes organism' = qbytes organism)
     \<and> qbytes organism \<le> qbytes organism'
     \<and> (\<exists>organism'' eng''. evolve_repeatedly n eng organism dt = Inr (organism'', eng'')
          \<and> qbytes organism \<le> qbytes organism'')"
proof -
  obtain organism' eng' where step: "evolve_step eng organism dt = Inr (organism', eng')"
    using evolve_step_Inr by blast
  show ?thesis
    using step evolve_step_qbytes [OF step] evolve_step_qbytes_mono [OF step]
      evolve_repeatedly_props [of n eng organism dt]
    by auto
qed

theorem evolve_step_yield_witness:
  "(\<exists>organism' eng'.
      evolve_step CCCEEngine_new ((OrganismState_new ''a'' ''0'')\<lparr>coherence := 0.95\<rparr>) 0.1
        = Inr (organism', eng')
      \<and> qbytes organism' = 0.95 * LAMBDA_PHI * 10 ^ 7)
   \<and> (\<exists>organism' eng'.
      evolve_step CCCEEngine_new ((OrganismState_new ''a'' ''0'')\<lparr>coherence := 0.5\<rparr>) 0.1
        = Inr (organism', eng')
      \<and> qbytes organism' = 0)"
  using evolve_step_yield
          [of CCCEEngine_new "(OrganismState_new ''a'' ''0'')\<lparr>coherence := 0.95\<rparr>" "0.1" 0]
        evolve_step_yield
          [of CCCEEngine_new "(OrganismState_new ''a'' ''0'')\<lparr>coherence := 0.5\<rparr>" "0.1" 0]
  by (auto simp: OrganismState_new_def)

text \<open>
  Claim C5 fails on the code. An organism just admitted by \<open>load_organism\<close> stores
  \<open>xi_val = 0\<close>, the dataclass default, although the metric of its coherence 0.97,
  consciousness 7.6901 and decoherence 0.001 is 7459.397: admission recomputes the metric
  only inside \<open>symmetrize\<close>, which the default coherence never reaches. \<open>is_stable\<close> reads
  the stored value as it is and answers \<open>False\<close>, where \<open>check_convergence\<close>, which
  recomputes first, answers \<open>True\<close> on the same state.
\<close>

theorem fresh_organism_xi_stale:
  "\<exists>organism ld'.
     load_organism sha256_hex stem (Map.empty(filepath \<mapsto> File content)) ld filepath
       = (Some organism, ld')
     \<and> lambda_val (ccce organism) = 0.97 \<and> phi_val (ccce organism) = 7.6901
     \<and> gamma_val (ccce organism) = 0.001
     \<and> xi_val (ccce organism) = Fin 0
     \<and> CCCEEngine_compute_xi eng (lambda_val (ccce organism)) (phi_val (ccce organism))
         (gamma_val (ccce organism)) = Inr (Fin 7459.397, eng)
     \<and> is_stable (ccce organism) = False
     \<and> check_convergence (eng\<lparr>state := ccce organism\<rparr>) =
         Inr (True, eng\<lparr>state := (ccce organism)\<lparr>xi_val := Fin 7459.397\<rparr>\<rparr>)"
proof -
  have "(Map.empty(filepath \<mapsto> File content)) filepath = Some (File content)" by simp
  then have "load_organism sha256_hex stem (Map.empty(filepath \<mapsto> File content)) ld filepath =
     (Some (OrganismState_new (stem filepath) (generate_genesis_hash sha256_hex content)),
      log_to PLATFORM (Loaded (stem filepath) (take 8 (generate_genesis_hash sha256_hex content)))
        (ld\<lparr>ecosystem :=
              AList.update (generate_genesis_hash sha256_hex content)
                (OrganismState_new (stem filepath) (generate_genesis_hash sha256_hex content))
                (ecosystem ld)\<rparr>))"
    by (rule load_organism_File)
  then show ?thesis
    by (simp add: OrganismState_new_def CCCEState_default_def is_stable_def
        CCCEEngine_compute_xi_def truediv_def check_convergence_def CCCEState_compute_xi_Inr
        THETA_LOCK_def)
qed

text \<open>
  Claim C6, as the code has it. One \<open>evolve_step\<close> sets the lock angle to
  \<open>theta - 0.1 * (theta - THETA_LOCK)\<close>. Evaluated in binary64, the distance to
  \<open>THETA_LOCK\<close> after the step is \<open>0.9\<close> times the distance before only up to rounding: for
  an angle of magnitude up to \<open>2 ^ 1000\<close> the two differ by at most
  \<open>(\<bar>theta\<bar> + \<bar>theta - THETA_LOCK\<bar>) / 2 ^ 53 + 3 / 2 ^ 1075\<close>.
\<close>

theorem evolve_step_angle_relaxation:
  assumes "\<bar>theta\<bar> \<le> 2 ^ 1000"
  shows "(\<exists>organism' eng'. evolve_step eng organism dt = Inr (organism', eng')
            \<and> theta_val (ccce organism') =
                theta_val (ccce organism) - 0.1 * (theta_val (ccce organism) - THETA_LOCK))
       \<and> \<bar>\<bar>evolve_step_theta_binary64 theta - binary64_round THETA_LOCK\<bar>
             - 0.9 * \<bar>theta - binary64_round THETA_LOCK\<bar>\<bar>
           \<le> (\<bar>theta\<bar> + \<bar>theta - binary64_round THETA_LOCK\<bar>) / 2 ^ 53 + 3 / 2 ^ 1075"
proof -
  obtain organism' eng' where step: "evolve_step eng organism dt = Inr (organism', eng')"
    using evolve_step_Inr by blast
  have "\<bar>\<bar>evolve_step_theta_binary64 theta - binary64_round THETA_LOCK\<bar>
             - 0.9 * \<bar>theta - binary64_round THETA_LOCK\<bar>\<bar>
           \<le> (\<bar>theta\<bar> + \<bar>theta - binary64_round THETA_LOCK\<bar>) / 2 ^ 53 + 3 / 2 ^ 1075"
    unfolding evolve_step_theta_binary64_pull by (rule symmetry_pull_binary64_gap)
  with step evolve_step_theta [OF step] show ?thesis by blast
qed

theorem evolve_step_angle_relaxation_witness:
  "(\<exists>organism' eng'.
      evolve_step CCCEEngine_new
        ((OrganismState_new ''a'' ''0'')\<lparr>ccce := CCCEState_default\<lparr>theta_val := 61.843\<rparr>\<rparr>) 0.1
        = Inr (organism', eng')
      \<and> theta_val (ccce organism') = 61.843 - 0.1 * (61.843 - THETA_LOCK))
   \<and> \<bar>\<bar>evolve_step_theta_binary64 (7296253608805271 / 2 ^ 47) - binary64_round THETA_LOCK\<bar>
         - 0.9 * \<bar>7296253608805271 / 2 ^ 47 - binary64_round THETA_LOCK\<bar>\<bar>
       \<le> (\<bar>7296253608805271 / 2 ^ 47\<bar>
            + \<bar>7296253608805271 / 2 ^ 47 - binary64_round THETA_LOCK\<bar>) / 2 ^ 53
          + 3 / 2 ^ 1075"
proof -
  have r: "\<bar>7296253608805271 / 2 ^ 47 :: real\<bar> \<le> 2 ^ 1000"
    by simp
  from evolve_step_angle_relaxation [OF r, of CCCEEngine_new
      "(OrganismState_new ''a'' ''0'')\<lparr>ccce := CCCEState_default\<lparr>theta_val := 61.843\<rparr>\<rparr>" "0.1"]
  show ?thesis
    by (simp add: OrganismState_new_def)
qed

text \<open>
  The distance is not exactly 0.9 times the distance before on the code's floats. The
  float next above \<open>THETA_LOCK\<close> is \<open>7296253608805271 / 2 ^ 47\<close>; there the correction
  \<open>theta_error * 0.1\<close> is a tenth of the spacing of the floats, the subtraction rounds back
  to the same float, and the step leaves the angle, and so its distance to the target,
  unchanged.
\<close>

theorem evolve_step_angle_ratio_counterexample:
  "binary64_round (7296253608805271 / 2 ^ 47) = 7296253608805271 / 2 ^ 47
   \<and> 7296253608805271 / 2 ^ 47 - binary64_round THETA_LOCK = 1 / 2 ^ 47
   \<and> evolve_step_theta_binary64 (7296253608805271 / 2 ^ 47) = 7296253608805271 / 2 ^ 47
   \<and> \<bar>evolve_step_theta_binary64 (7296253608805271 / 2 ^ 47) - binary64_round THETA_LOCK\<bar>
       \<noteq> 0.9 * \<bar>7296253608805271 / 2 ^ 47 - binary64_round THETA_LOCK\<bar>
   \<and> \<bar>evolve_step_theta_binary64 (7296253608805271 / 2 ^ 47) - 51.843\<bar>
       \<noteq> 0.9 * \<bar>7296253608805271 / 2 ^ 47 - 51.843\<bar>"
  unfolding evolve_step_theta_binary64_next_above binary64_round_THETA_LOCK
  by simp

text \<open>
  Claim C7. Every \<open>evolve_step\<close> returns and raises \<open>generation\<close> by exactly one; an
  organism just admitted from an existing file has coherence 0.97, entropy 0.03,
  consciousness 7.6901 and generation 0, and after two steps with \<open>dt = 0.1\<close> its
  generation is 2 and its entropy still 0.03.
\<close>

theorem evolve_step_generation_advance:
  "(\<exists>organism' eng'. evolve_step eng organism dt = Inr (organism', eng')
      \<and> generation organism' = generation organism + 1)
   \<and> (fs filepath = Some (File content) \<longrightarrow>
       (\<exists>o0 ld' o1 e1 o2 e2.
          load_organism sha256_hex stem fs ld filepath = (Some o0, ld')
          \<and> coherence o0 = 0.97 \<and> entropy o0 = 0.03 \<and> consciousness_phi o0 = 7.6901
          \<and> generation o0 = 0
          \<and> evolve_step eng o0 0.1 = Inr (o1, e1)
          \<and> evolve_step e1 o1 0.1 = Inr (o2, e2)
          \<and> generation o2 = 2 \<and> entropy o2 = 0.03))"
proof -
  obtain organism' eng' where step: "evolve_step eng organism dt = Inr (organism', eng')"
    using evolve_step_Inr by blast
  have first: "\<exists>organism' eng'. evolve_step eng organism dt = Inr (organism', eng')
      \<and> generation organism' = generation organism + 1"
    using step evolve_step_generation [OF step] by blast
  have second: "\<exists>o0 ld' o1 e1 o2 e2.
          load_organism sha256_hex stem fs ld filepath = (Some o0, ld')
          \<and> coherence o0 = 0.97 \<and> entropy o0 = 0.03 \<and> consciousness_phi o0 = 7.6901
          \<and> generation o0 = 0
          \<and> evolve_step eng o0 0.1 = Inr (o1, e1)
          \<and> evolve_step e1 o1 0.1 = Inr (o2, e2)
          \<and> generation o2 = 2 \<and> entropy o2 = 0.03"
    if f: "fs filepath = Some (File content)"
  proof -
    let ?o0 = "OrganismState_new (stem filepath) (generate_genesis_hash sha256_hex content)"
    obtain o1 e1 where s1: "evolve_step eng ?o0 0.1 = Inr (o1, e1)"
      using evolve_step_Inr by blast
    obtain o2 e2 where s2: "evolve_step e1 o1 0.1 = Inr (o2, e2)"
      using evolve_step_Inr by blast
    have g1: "generation o1 = 1" and n1: "entropy o1 = 0.03"
      using evolve_step_generation [OF s1] evolve_step_entropy [OF s1]
      by (simp_all add: OrganismState_new_def)
    have "generation o2 = 2" and "entropy o2 = 0.03"
      using evolve_step_generation [OF s2] evolve_step_entropy [OF s2] g1 n1
      by simp_all
    with s1 s2 load_organism_File [where fs = fs and filepath = filepath, OF f]
    show ?thesis
      by (simp add: OrganismState_new_def)
  qed
  from first second show ?thesis by blast
qed

theorem evolve_step_generation_advance_witness:
  "\<exists>o0 ld' o1 e1 o2 e2.
     load_organism (\<lambda>c. c) (\<lambda>p. p) (Map.empty(''a.dna'' \<mapsto> File ''x''))
       \<lparr>ecosystem = [], logger = []\<rparr> ''a.dna'' = (Some o0, ld')
     \<and> generation o0 = 0
     \<and> evolve_step CCCEEngine_new o0 0.1 = Inr (o1, e1)
     \<and> evolve_step e1 o1 0.1 = Inr (o2, e2)
     \<and> generation o2 = 2 \<and> entropy o2 = 0.03"
  using evolve_step_generation_advance
          [of CCCEEngine_new "OrganismState_new ''a'' ''0''" "0.1"
              "Map.empty(''a.dna'' \<mapsto> File ''x'')" "''a.dna''" "''x''"
              "\<lambda>c. c" "\<lambda>p. p" "\<lparr>ecosystem = [], logger = []\<rparr>"]
  by auto

text \<open>
  Claim C8. For a path that does not exist, \<open>load_organism\<close> returns \<^verbatim>\<open>None\<close> without
  raising; the registry is unchanged, and the only effect is the notice sent to the
  logger.
\<close>

theorem load_organism_not_found:
  assumes "fs filepath = None"
  shows "load_organism sha256_hex stem fs ld filepath =
           (None, ld\<lparr>logger := logger ld @ [(AIDEN, FileNotFound filepath)]\<rparr>)
         \<and> ecosystem (snd (load_organism sha256_hex stem fs ld filepath)) = ecosystem ld"
  using assms by (simp add: load_organism_def log_to_def)

theorem load_organism_not_found_witness:
  "load_organism (\<lambda>c. c) (\<lambda>p. p) Map.empty two_organisms ''missing.dna'' =
     (None, two_organisms\<lparr>logger := [(AIDEN, FileNotFound ''missing.dna'')]\<rparr>)
   \<and> ecosystem (snd (load_organism (\<lambda>c. c) (\<lambda>p. p) Map.empty two_organisms ''missing.dna''))
       = ecosystem two_organisms"
  using load_organism_not_found [of Map.empty "''missing.dna''" "\<lambda>c. c" "\<lambda>p. p" two_organisms]
  by (simp add: two_organisms_def)

text \<open>
  Claim C9. \<open>compute_ecosystem_lambda\<close> never raises: it returns 0 for the empty registry
  and the sum of the coherences divided by the number of entities otherwise.
\<close>

theorem compute_ecosystem_lambda_mean:
  "(ecosystem ld = [] \<longrightarrow> compute_ecosystem_lambda ld = Inr 0)
   \<and> (ecosystem ld \<noteq> [] \<longrightarrow>
        compute_ecosystem_lambda ld =
          Inr (sum_list (map (\<lambda>kv. coherence (snd kv)) (ecosystem ld))
                 / real (length (ecosystem ld))))
   \<and> (\<exists>m. compute_ecosystem_lambda ld = Inr m)"
  by (simp add: compute_ecosystem_lambda_def truediv_def)

theorem compute_ecosystem_lambda_mean_witness:
  "compute_ecosystem_lambda \<lparr>ecosystem = [], logger = []\<rparr> = Inr 0
   \<and> compute_ecosystem_lambda two_organisms = Inr 0.75"
  using compute_ecosystem_lambda_mean [of "\<lparr>ecosystem = [], logger = []\<rparr>"]
        compute_ecosystem_lambda_mean [of two_organisms]
  by (simp add: two_organisms_def)

text \<open>
  Claim C10. \<open>evolve_step\<close> never changes the organism's coherence, for any \<open>dt\<close>, in one
  step or in any number of steps. The assignments to coherence are those of \<open>symmetrize\<close>,
  which sets it to \<open>(coherence + COHERENCE_MIN) / 2\<close>, and of the population normalizer.
\<close>

theorem evolve_step_preserves_coherence:
  "(\<exists>organism' eng'. evolve_step eng organism dt = Inr (organism', eng')
      \<and> coherence organism' = coherence organism)
   \<and> (\<exists>organism' eng'. evolve_repeatedly n eng organism dt = Inr (organism', eng')
      \<and> coherence organism' = coherence organism)
   \<and> (\<exists>organism'. symmetrize organism = Inr organism'
      \<and> coherence organism' = (coherence organism + COHERENCE_MIN) / 2)"
proof -
  obtain organism' eng' where step: "evolve_step eng organism dt = Inr (organism', eng')"
    using evolve_step_Inr by blast
  have "\<exists>organism'. symmetrize organism = Inr organism'
      \<and> coherence organism' = (coherence organism + COHERENCE_MIN) / 2"
    by (simp add: symmetrize_def Let_def CCCEState_compute_xi_Inr)
  with step evolve_step_coherence [OF step] evolve_repeatedly_props [of n eng organism dt]
  show ?thesis by blast
qed

theorem evolve_step_preserves_coherence_witness:
  "(\<exists>organism' eng'.
      evolve_step CCCEEngine_new ((OrganismState_new ''a'' ''0'')\<lparr>entropy := 0.5\<rparr>) 0.1
        = Inr (organism', eng')
      \<and> coherence organism' = 0.97)
   \<and> (\<exists>organism' eng'.
      evolve_repeatedly 3 CCCEEngine_new ((OrganismState_new ''a'' ''0'')\<lparr>entropy := 0.5\<rparr>) 0.1
        = Inr (organism', eng')
      \<and> coherence organism' = 0.97)"
  using evolve_step_preserves_coherence
          [of CCCEEngine_new "(OrganismState_new ''a'' ''0'')\<lparr>entropy := 0.5\<rparr>" "0.1" 3]
  by (auto simp: OrganismState_new_def)

end
